theory Spec2Isabelle
  imports Main
begin

section \<open>Values of request bodies\<close>

text \<open>
  The handlers of \<^verbatim>\<open>server.js\<close> destructure \<^verbatim>\<open>req.body\<close>, a parsed JSON document
  (or a parsed form). A field that is absent reads as \<^verbatim>\<open>undefined\<close>. Numbers are
  modelled as integers: the handlers modelled here test, store and return numbers and
  never compute with them.
\<close>

datatype jsval =
    JUndefined
  | JNull
  | JBool bool
  | JNum int
  | JStr string
  | JArr "jsval list"
  | JObj "(string \<times> jsval) list"

text \<open>JavaScript truthiness, as tested by \<^verbatim>\<open>!x\<close>, \<^verbatim>\<open>if (x)\<close> and \<^verbatim>\<open>x || y\<close>.\<close>

fun truthy :: "jsval \<Rightarrow> bool" where
  "truthy JUndefined = False"
| "truthy JNull = False"
| "truthy (JBool b) = b"
| "truthy (JNum n) = (n \<noteq> 0)"
| "truthy (JStr s) = (s \<noteq> [])"
| "truthy (JArr xs) = True"
| "truthy (JObj kvs) = True"

text \<open>
  Strict equality \<^verbatim>\<open>===\<close>. Primitives are compared by value. Arrays and objects are
  compared by reference, and two values parsed from a request body (or one of them read
  from a stored document) are never the same reference.
\<close>

fun strict_eq :: "jsval \<Rightarrow> jsval \<Rightarrow> bool" where
  "strict_eq (JArr xs) b = False"
| "strict_eq (JObj kvs) b = False"
| "strict_eq a b = (a = b)"

section \<open>Outcomes of library calls\<close>

text \<open>
  Every handler body is a \<^verbatim>\<open>try\<close> block: a library call either returns or throws
  (a rejected promise under \<^verbatim>\<open>await\<close>), and whatever is thrown reaches the handler's
  \<^verbatim>\<open>catch\<close>. A call throws on an argument that it rejects; a failure of the store
  itself, such as a lost connection, is outside the model.
\<close>

datatype 'a outcome = Throws | Returns 'a

text \<open>
  \<^verbatim>\<open>Promise.all\<close> over a list of promises: rejected as soon as one of them is, otherwise
  the list of results in order.
\<close>

fun promise_all :: "'a outcome list \<Rightarrow> 'a list outcome" where
  "promise_all [] = Returns []"
| "promise_all (Throws # ps) = Throws"
| "promise_all (Returns x # ps) =
     (case promise_all ps of Throws \<Rightarrow> Throws | Returns xs \<Rightarrow> Returns (x # xs))"

text \<open>
  The behaviour of the third-party libraries that the handlers delegate to, and that the
  repository does not define, is a parameter of the model:
  \<^item> \<open>emailQuery q\<close> is the filter that the store applies to the stored \<^verbatim>\<open>email\<close> of a
    document for the query \<^verbatim>\<open>{ email: q }\<close> (it throws on a value it cannot cast);
  \<^item> \<open>castString\<close> and \<open>castNumber\<close> are the schema casts of \<^verbatim>\<open>String\<close> and
    \<^verbatim>\<open>Number\<close> paths (\<open>None\<close> is \<^verbatim>\<open>null\<close> or an absent field);
  \<^item> \<open>castObjectId\<close> is the cast of a value to an element of an \<^verbatim>\<open>ObjectId\<close> array
    (\<open>None\<close> is \<^verbatim>\<open>null\<close>), and \<open>looseEq v x\<close> is the comparison \<^verbatim>\<open>v == x\<close> of a
    request value with a stored element, by which the array method \<^verbatim>\<open>includes\<close>
    searches;
  \<^item> \<open>bcrypt_hash\<close> and \<open>bcrypt_compare\<close> are \<^verbatim>\<open>bcrypt.hash(s, 10)\<close> and
    \<^verbatim>\<open>bcrypt.compare(s, hash)\<close> on strings.
  A theorem stated for a library \<open>l\<close> holds for every such library; a theorem stated
  for \<open>sample_lib\<close> evaluates the handlers under the instance defined further down.
\<close>

type_synonym objectId = nat

record lib =
  emailQuery :: "jsval \<Rightarrow> (string option \<Rightarrow> bool) outcome"
  castString :: "jsval \<Rightarrow> string option outcome"
  castNumber :: "jsval \<Rightarrow> int option outcome"
  castObjectId :: "jsval \<Rightarrow> objectId option outcome"
  looseEq :: "jsval \<Rightarrow> objectId option \<Rightarrow> bool"
  bcrypt_hash :: "string \<Rightarrow> string"
  bcrypt_compare :: "string \<Rightarrow> string \<Rightarrow> bool"

section \<open>Schemas and collections\<close>

text \<open>
  Identifiers (\<^verbatim>\<open>ObjectId\<close>) are generated fresh for every new document; the model draws
  them from a counter kept with the collections. An identifier that a request hands to a
  query by identifier is modelled after the cast to \<^verbatim>\<open>ObjectId\<close>: \<open>Some i\<close> is a
  well-formed identifier, \<open>None\<close> a value that the cast rejects. The wishlist route
  inspects the value before any cast, and so takes it as it is received. An element of a
  stored wishlist is an identifier or \<^verbatim>\<open>null\<close>.
\<close>

record user =
  user_id :: objectId
  user_name :: "string option"
  email :: "string option"
  password :: string
  role :: "string option"
  isFirstLogin :: bool
  wishlist :: "objectId option list"

record product =
  product_id :: objectId
  product_name :: "string option"
  price :: "int option"
  product_image :: "string option"
  category :: string

record line_item =
  productId :: objectId
  productName :: "string option"
  productPrice :: "int option"
  quantity :: "int option"

record order =
  order_id :: objectId
  userId :: objectId
  products :: "line_item list"
  totalAmount :: "int option"
  status :: "string option"
  createdAt :: int

record db =
  Users :: "user list"
  Products :: "product list"
  Orders :: "order list"
  nextId :: objectId

definition empty_db :: db where
  "empty_db = \<lparr>Users = [], Products = [], Orders = [], nextId = 0\<rparr>"

section \<open>Responses\<close>

datatype body =
    Failure string
  | FailureNoMessage
  | Success
  | SuccessRole "string option"
  | SuccessLogin "string option" bool
  | SuccessProduct product
  | SuccessOrder "order option"

type_synonym response = "nat \<times> body"

section \<open>Model layer\<close>

text \<open>\<^verbatim>\<open>User.findOne({ email })\<close>: the first stored user that the filter accepts.\<close>

definition findOne :: "lib \<Rightarrow> jsval \<Rightarrow> user list \<Rightarrow> user option outcome" where
  "findOne l q us =
     (case emailQuery l q of
        Throws \<Rightarrow> Throws
      | Returns P \<Rightarrow> Returns (find (\<lambda>u. P (email u)) us))"

text \<open>\<^verbatim>\<open>bcrypt.hash\<close> and \<^verbatim>\<open>bcrypt.compare\<close> reject an argument that is not a string.\<close>

definition hash_password :: "lib \<Rightarrow> jsval \<Rightarrow> string outcome" where
  "hash_password l pw = (case pw of JStr s \<Rightarrow> Returns (bcrypt_hash l s) | _ \<Rightarrow> Throws)"

definition compare_password :: "lib \<Rightarrow> jsval \<Rightarrow> string \<Rightarrow> bool outcome" where
  "compare_password l pw stored =
     (case pw of JStr s \<Rightarrow> Returns (bcrypt_compare l s stored) | _ \<Rightarrow> Throws)"

text \<open>An \<^verbatim>\<open>enum\<close> validator accepts \<^verbatim>\<open>null\<close> and the listed strings.\<close>

definition enum_ok :: "string list \<Rightarrow> string option \<Rightarrow> bool" where
  "enum_ok vals v = (case v of None \<Rightarrow> True | Some s \<Rightarrow> s \<in> set vals)"

text \<open>
  \<^verbatim>\<open>new User({ name, email, password: hashed, role })\<close> under \<^verbatim>\<open>UserSchema\<close>: the fields
  are cast, \<^verbatim>\<open>role\<close> defaults to \<^verbatim>\<open>"user"\<close> when it is undefined and must lie in its
  enum, \<^verbatim>\<open>isFirstLogin\<close> defaults to true and \<^verbatim>\<open>wishlist\<close> to the empty array.
\<close>

definition new_User ::
  "lib \<Rightarrow> objectId \<Rightarrow> jsval \<Rightarrow> jsval \<Rightarrow> string \<Rightarrow> jsval \<Rightarrow> user outcome" where
  "new_User l i nm em hashed rl =
     (case castString l nm of
        Throws \<Rightarrow> Throws
      | Returns n \<Rightarrow>
     (case castString l em of
        Throws \<Rightarrow> Throws
      | Returns e \<Rightarrow>
     (case (if rl = JUndefined then Returns (Some ''user'') else castString l rl) of
        Throws \<Rightarrow> Throws
      | Returns r \<Rightarrow>
          if enum_ok [''user'', ''admin''] r
          then Returns \<lparr>user_id = i, user_name = n, email = e, password = hashed,
                        role = r, isFirstLogin = True, wishlist = []\<rparr>
          else Throws)))"

text \<open>
  Saving a new user inserts it; the unique index on \<^verbatim>\<open>email\<close> rejects a document whose
  stored email is already present.
\<close>

definition insert_User :: "user \<Rightarrow> db \<Rightarrow> db outcome" where
  "insert_User u d =
     (if email u \<in> set (map email (Users d)) then Throws
      else Returns (d\<lparr>Users := Users d @ [u], nextId := Suc (nextId d)\<rparr>))"

text \<open>Saving a loaded user writes it back to the document of the same identifier.\<close>

definition save_User :: "user \<Rightarrow> db \<Rightarrow> db" where
  "save_User u d =
     d\<lparr>Users := map (\<lambda>v. if user_id v = user_id u then u else v) (Users d)\<rparr>"

section \<open>Auth routes\<close>

definition signup ::
  "lib \<Rightarrow> jsval \<Rightarrow> jsval \<Rightarrow> jsval \<Rightarrow> jsval \<Rightarrow> jsval \<Rightarrow> db \<Rightarrow> response \<times> db" where
  "signup l nm em pw confirm rl d =
     (if \<not> strict_eq pw confirm then ((400, Failure ''Passwords do not match''), d)
      else
        (case findOne l em (Users d) of
           Throws \<Rightarrow> ((500, Failure ''Server error''), d)
         | Returns (Some exists) \<Rightarrow> ((409, Failure ''Email already exists''), d)
         | Returns None \<Rightarrow>
        (case hash_password l pw of
           Throws \<Rightarrow> ((500, Failure ''Server error''), d)
         | Returns hashed \<Rightarrow>
        (case new_User l (nextId d) nm em hashed rl of
           Throws \<Rightarrow> ((500, Failure ''Server error''), d)
         | Returns newUser \<Rightarrow>
        (case insert_User newUser d of
           Throws \<Rightarrow> ((500, Failure ''Server error''), d)
         | Returns d' \<Rightarrow> ((200, SuccessRole (role newUser)), d'))))))"

text \<open>The text that a template literal produces for a stored string field.\<close>

definition template :: "string option \<Rightarrow> string" where
  "template v = (case v of None \<Rightarrow> ''null'' | Some s \<Rightarrow> s)"

definition stored :: "string option \<Rightarrow> jsval" where
  "stored v = (case v of None \<Rightarrow> JNull | Some s \<Rightarrow> JStr s)"

definition login :: "lib \<Rightarrow> jsval \<Rightarrow> jsval \<Rightarrow> jsval \<Rightarrow> db \<Rightarrow> response \<times> db" where
  "login l em pw rl d =
     (case findOne l em (Users d) of
        Throws \<Rightarrow> ((500, Failure ''Server error''), d)
      | Returns None \<Rightarrow> ((404, Failure ''User not found''), d)
      | Returns (Some u) \<Rightarrow>
     (case compare_password l pw (password u) of
        Throws \<Rightarrow> ((500, Failure ''Server error''), d)
      | Returns match \<Rightarrow>
          if \<not> match then ((401, Failure ''Invalid password''), d)
          else if \<not> strict_eq (stored (role u)) rl
          then ((403, Failure (''Incorrect role. Registered as '' @ template (role u))), d)
          else
            (let isNewUser = isFirstLogin u;
                 d' = (if isNewUser then save_User (u\<lparr>isFirstLogin := False\<rparr>) d else d)
             in ((200, SuccessLogin (role u) isNewUser), d'))))"

section \<open>Wishlist route\<close>

text \<open>
  \<^verbatim>\<open>user.wishlist.includes(productId)\<close> searches the stored array for an element that
  the request's value, as received, is loosely equal to. \<^verbatim>\<open>user.wishlist.push(productId)\<close>
  casts the value and appends the result; it throws when the cast does.
\<close>

definition array_includes :: "lib \<Rightarrow> objectId option list \<Rightarrow> jsval \<Rightarrow> bool" where
  "array_includes l xs v = list_ex (looseEq l v) xs"

definition addToWishlist :: "lib \<Rightarrow> jsval \<Rightarrow> jsval \<Rightarrow> db \<Rightarrow> response \<times> db" where
  "addToWishlist l em pid d =
     (case findOne l em (Users d) of
        Throws \<Rightarrow> ((500, FailureNoMessage), d)
      | Returns None \<Rightarrow> ((404, Failure ''User not found''), d)
      | Returns (Some u) \<Rightarrow>
          if \<not> array_includes l (wishlist u) pid
          then
            (case castObjectId l pid of
               Throws \<Rightarrow> ((500, FailureNoMessage), d)
             | Returns x \<Rightarrow>
                 ((200, Success), save_User (u\<lparr>wishlist := wishlist u @ [x]\<rparr>) d))
          else ((200, Success), d))"

section \<open>Product routes\<close>

text \<open>
  \<^verbatim>\<open>new Product({ name, price, category, image })\<close> under \<^verbatim>\<open>ProductSchema\<close>:
  \<^verbatim>\<open>category\<close> is required and must lie in its enum.
\<close>

definition new_Product ::
  "lib \<Rightarrow> objectId \<Rightarrow> jsval \<Rightarrow> jsval \<Rightarrow> jsval \<Rightarrow> jsval \<Rightarrow> product outcome" where
  "new_Product l i nm pr cat img =
     (case castString l nm of
        Throws \<Rightarrow> Throws
      | Returns n \<Rightarrow>
     (case castNumber l pr of
        Throws \<Rightarrow> Throws
      | Returns p \<Rightarrow>
     (case castString l img of
        Throws \<Rightarrow> Throws
      | Returns im \<Rightarrow>
     (case castString l cat of
        Throws \<Rightarrow> Throws
      | Returns None \<Rightarrow> Throws
      | Returns (Some c) \<Rightarrow>
          if c \<in> set [''men'', ''women'', ''kids'']
          then Returns \<lparr>product_id = i, product_name = n, price = p,
                        product_image = im, category = c\<rparr>
          else Throws))))"

text \<open>
  \<open>file\<close> is the name under which the upload middleware stored the file of the
  form field \<^verbatim>\<open>imageFile\<close> (\<^verbatim>\<open>req.file.filename\<close>), if the request carried one.
\<close>

definition createProduct ::
  "lib \<Rightarrow> jsval \<Rightarrow> jsval \<Rightarrow> jsval \<Rightarrow> jsval \<Rightarrow> string option \<Rightarrow> db \<Rightarrow> response \<times> db" where
  "createProduct l nm pr cat imageUrl file d =
     (if \<not> truthy nm \<or> \<not> truthy pr \<or> \<not> truthy cat
      then ((400, Failure ''All fields required''), d)
      else
        (case (case file of
                 Some filename \<Rightarrow> Some (JStr (''/uploads/'' @ filename))
               | None \<Rightarrow> if truthy imageUrl then Some imageUrl else None) of
           None \<Rightarrow> ((400, Failure ''Image is required''), d)
         | Some img \<Rightarrow>
        (case new_Product l (nextId d) nm pr cat img of
           Throws \<Rightarrow> ((500, Failure ''Server error''), d)
         | Returns p \<Rightarrow>
             ((200, SuccessProduct p),
              d\<lparr>Products := Products d @ [p], nextId := Suc (nextId d)\<rparr>))))"

text \<open>\<^verbatim>\<open>Product.findById\<close> and \<^verbatim>\<open>Product.findByIdAndDelete\<close>.\<close>

definition findById :: "objectId \<Rightarrow> product list \<Rightarrow> product option" where
  "findById i ps = find (\<lambda>p. product_id p = i) ps"

fun findByIdAndDelete :: "objectId \<Rightarrow> product list \<Rightarrow> product list" where
  "findByIdAndDelete i [] = []"
| "findByIdAndDelete i (p # ps) =
     (if product_id p = i then ps else p # findByIdAndDelete i ps)"

definition deleteProduct :: "objectId option \<Rightarrow> db \<Rightarrow> response \<times> db" where
  "deleteProduct pid d =
     (case pid of
        None \<Rightarrow> ((500, Failure ''Delete failed''), d)
      | Some i \<Rightarrow> ((200, Success), d\<lparr>Products := findByIdAndDelete i (Products d)\<rparr>))"

section \<open>Order routes\<close>

text \<open>
  An entry of the request's \<^verbatim>\<open>products\<close> array is the pair of its \<^verbatim>\<open>productId\<close> and its
  \<^verbatim>\<open>quantity\<close>. The callback of \<^verbatim>\<open>products.map\<close> looks the product up and throws when
  there is none; it returns the snapshot with the quantity as received.
\<close>

type_synonym entry = "objectId option \<times> jsval"

definition snapshot ::
  "product list \<Rightarrow> entry \<Rightarrow> (objectId \<times> string option \<times> int option \<times> jsval) outcome" where
  "snapshot ps p =
     (case fst p of
        None \<Rightarrow> Throws
      | Some i \<Rightarrow>
     (case findById i ps of
        None \<Rightarrow> Throws
      | Some found \<Rightarrow> Returns (product_id found, product_name found, price found, snd p)))"

text \<open>
  \<^verbatim>\<open>new Order({ userId, products: productData, totalAmount })\<close> under \<^verbatim>\<open>OrderSchema\<close>:
  the quantities and the total are cast, \<^verbatim>\<open>status\<close> defaults to \<^verbatim>\<open>"Pending"\<close> and
  \<^verbatim>\<open>createdAt\<close> to the time of creation.
\<close>

fun cast_lines ::
  "lib \<Rightarrow> (objectId \<times> string option \<times> int option \<times> jsval) list \<Rightarrow> line_item list outcome" where
  "cast_lines l [] = Returns []"
| "cast_lines l ((i, n, p, q) # xs) =
     (case castNumber l q of
        Throws \<Rightarrow> Throws
      | Returns q' \<Rightarrow>
     (case cast_lines l xs of
        Throws \<Rightarrow> Throws
      | Returns ys \<Rightarrow>
          Returns (\<lparr>productId = i, productName = n, productPrice = p, quantity = q'\<rparr> # ys)))"

definition new_Order ::
  "lib \<Rightarrow> objectId \<Rightarrow> int \<Rightarrow> objectId \<Rightarrow>
   (objectId \<times> string option \<times> int option \<times> jsval) list \<Rightarrow> jsval \<Rightarrow> order outcome" where
  "new_Order l i now uid productData amt =
     (case cast_lines l productData of
        Throws \<Rightarrow> Throws
      | Returns ls \<Rightarrow>
     (case castNumber l amt of
        Throws \<Rightarrow> Throws
      | Returns t \<Rightarrow>
          Returns \<lparr>order_id = i, userId = uid, products = ls, totalAmount = t,
                   status = Some ''Pending'', createdAt = now\<rparr>))"

text \<open>
  \<open>now\<close> is the server's clock when the order is created; \<open>entries\<close> is \<open>None\<close> when
  the request's \<^verbatim>\<open>products\<close> is not an array, so that \<^verbatim>\<open>products.map\<close> throws.
\<close>

definition createOrder ::
  "lib \<Rightarrow> int \<Rightarrow> jsval \<Rightarrow> entry list option \<Rightarrow> jsval \<Rightarrow> db \<Rightarrow> response \<times> db" where
  "createOrder l now em entries amt d =
     (case findOne l em (Users d) of
        Throws \<Rightarrow> ((500, Failure ''Failed to create order''), d)
      | Returns None \<Rightarrow> ((404, Failure ''User not found''), d)
      | Returns (Some u) \<Rightarrow>
     (case entries of
        None \<Rightarrow> ((500, Failure ''Failed to create order''), d)
      | Some es \<Rightarrow>
     (case promise_all (map (snapshot (Products d)) es) of
        Throws \<Rightarrow> ((500, Failure ''Failed to create order''), d)
      | Returns productData \<Rightarrow>
     (case new_Order l (nextId d) now (user_id u) productData amt of
        Throws \<Rightarrow> ((500, Failure ''Failed to create order''), d)
      | Returns ordr \<Rightarrow>
          ((200, SuccessOrder (Some ordr)),
           d\<lparr>Orders := Orders d @ [ordr], nextId := Suc (nextId d)\<rparr>)))))"

text \<open>
  \<^verbatim>\<open>Order.findByIdAndUpdate(id, { status }, { new: true })\<close>: the status is cast, not
  validated, and the answer carries the updated order, or \<^verbatim>\<open>null\<close> when there is none.
\<close>

definition updateOrderStatus :: "lib \<Rightarrow> objectId option \<Rightarrow> jsval \<Rightarrow> db \<Rightarrow> response \<times> db" where
  "updateOrderStatus l oid st d =
     (case oid of
        None \<Rightarrow> ((500, Failure ''Failed to update order''), d)
      | Some i \<Rightarrow>
     (case castString l st of
        Throws \<Rightarrow> ((500, Failure ''Failed to update order''), d)
      | Returns s \<Rightarrow>
          (let os = map (\<lambda>ordr. if order_id ordr = i then ordr\<lparr>status := s\<rparr> else ordr) (Orders d)
           in ((200, SuccessOrder (find (\<lambda>ordr. order_id ordr = i) os)), d\<lparr>Orders := os\<rparr>))))"

section \<open>The server as a transition system\<close>

text \<open>
  The requests that the routes above serve. The remaining routes (the listings and the
  analytics) only read the collections. A handler runs from its first query to its
  response without another request in between.
\<close>

datatype request =
    Signup jsval jsval jsval jsval jsval
  | Login jsval jsval jsval
  | AddToWishlist jsval jsval
  | CreateProduct jsval jsval jsval jsval "string option"
  | DeleteProduct "objectId option"
  | CreateOrder int jsval "entry list option" jsval
  | UpdateOrderStatus "objectId option" jsval

fun handle :: "lib \<Rightarrow> request \<Rightarrow> db \<Rightarrow> response \<times> db" where
  "handle l (Signup nm em pw confirm rl) d = signup l nm em pw confirm rl d"
| "handle l (Login em pw rl) d = login l em pw rl d"
| "handle l (AddToWishlist em pid) d = addToWishlist l em pid d"
| "handle l (CreateProduct nm pr cat imageUrl file) d = createProduct l nm pr cat imageUrl file d"
| "handle l (DeleteProduct pid) d = deleteProduct pid d"
| "handle l (CreateOrder now em entries amt) d = createOrder l now em entries amt d"
| "handle l (UpdateOrderStatus oid st) d = updateOrderStatus l oid st d"

fun run :: "lib \<Rightarrow> request list \<Rightarrow> db \<Rightarrow> db" where
  "run l [] d = d"
| "run l (r # rs) d = run l rs (snd (handle l r d))"

section \<open>A library instance for evaluation\<close>

text \<open>
  One instance of the library parameter, on which the handlers are evaluated at concrete
  requests: exact match of string emails, casts that accept the value of the expected
  type, and a stand-in for the hash.

  An \<^verbatim>\<open>ObjectId\<close> is a number of 96 bits, written as 24 hexadecimal digits. The cast
  reads such a string with digits of either case, and passes \<^verbatim>\<open>null\<close> and
  \<^verbatim>\<open>undefined\<close> on as \<^verbatim>\<open>null\<close>. A stored identifier converts to its text in
  lower-case digits, so a string is loosely equal to it exactly when the string is that
  lower-case text; \<^verbatim>\<open>null\<close> and \<^verbatim>\<open>undefined\<close> are loosely equal to \<^verbatim>\<open>null\<close>.
\<close>

definition digit_of :: "char \<Rightarrow> nat option" where
  "digit_of c =
     map_of
       [(CHR ''0'', 0), (CHR ''1'', 1), (CHR ''2'', 2), (CHR ''3'', 3), (CHR ''4'', 4),
        (CHR ''5'', 5), (CHR ''6'', 6), (CHR ''7'', 7), (CHR ''8'', 8), (CHR ''9'', 9),
        (CHR ''a'', 10), (CHR ''b'', 11), (CHR ''c'', 12), (CHR ''d'', 13), (CHR ''e'', 14),
        (CHR ''f'', 15),
        (CHR ''A'', 10), (CHR ''B'', 11), (CHR ''C'', 12), (CHR ''D'', 13), (CHR ''E'', 14),
        (CHR ''F'', 15)] c"

fun parse_hex :: "nat \<Rightarrow> string \<Rightarrow> nat option" where
  "parse_hex a [] = Some a"
| "parse_hex a (c # cs) =
     (case digit_of c of None \<Rightarrow> None | Some v \<Rightarrow> parse_hex (16 * a + v) cs)"

definition read_id :: "string \<Rightarrow> nat option" where
  "read_id s = (if length s = 24 then parse_hex 0 s else None)"

definition lower_case_id :: "string \<Rightarrow> bool" where
  "lower_case_id s \<longleftrightarrow> list_all (\<lambda>c. c \<in> set ''0123456789abcdef'') s"

definition sample_lib :: lib where
  "sample_lib =
     \<lparr>emailQuery = (\<lambda>q. case q of JStr s \<Rightarrow> Returns (\<lambda>e. e = Some s) | _ \<Rightarrow> Throws),
      castString = (\<lambda>v. case v of JStr s \<Rightarrow> Returns (Some s)
                                | JUndefined \<Rightarrow> Returns None
                                | JNull \<Rightarrow> Returns None
                                | _ \<Rightarrow> Throws),
      castNumber = (\<lambda>v. case v of JNum n \<Rightarrow> Returns (Some n)
                                | JUndefined \<Rightarrow> Returns None
                                | JNull \<Rightarrow> Returns None
                                | _ \<Rightarrow> Throws),
      castObjectId = (\<lambda>v. case v of
                             JStr s \<Rightarrow> (case read_id s of
                                          None \<Rightarrow> Throws
                                        | Some i \<Rightarrow> Returns (Some i))
                           | JUndefined \<Rightarrow> Returns None
                           | JNull \<Rightarrow> Returns None
                           | _ \<Rightarrow> Throws),
      looseEq = (\<lambda>v x. case v of
                          JStr s \<Rightarrow> lower_case_id s \<and> x \<noteq> None \<and> read_id s = x
                        | JUndefined \<Rightarrow> x = None
                        | JNull \<Rightarrow> x = None
                        | _ \<Rightarrow> False),
      bcrypt_hash = (\<lambda>s. ''$2a$10$'' @ s),
      bcrypt_compare = (\<lambda>s h. h = ''$2a$10$'' @ s)\<rparr>"

definition ann :: user where
  "ann = \<lparr>user_id = 0, user_name = Some ''Ann'', email = Some ''ann@shop.test'',
          password = ''$2a$10$secret'', role = Some ''admin'', isFirstLogin = True,
          wishlist = []\<rparr>"

definition tee :: product where
  "tee = \<lparr>product_id = 1, product_name = Some ''Tee'', price = Some 499,
          product_image = Some ''http://x/y.png'', category = ''men''\<rparr>"

definition shop :: db where
  "shop = \<lparr>Users = [ann], Products = [tee], Orders = [], nextId = 2\<rparr>"

definition bob :: user where
  "bob = \<lparr>user_id = 0, user_name = Some ''Bob'', email = Some ''bob@shop.test'',
          password = ''$2a$10$pw'', role = Some ''user'', isFirstLogin = True, wishlist = []\<rparr>"

definition joined :: db where
  "joined = \<lparr>Users = [bob], Products = [], Orders = [], nextId = 1\<rparr>"

section \<open>Notions used in the statements\<close>

text \<open>
  An entry of an order request resolves when its \<^verbatim>\<open>productId\<close> is an identifier and a
  product with that identifier is stored.
\<close>

definition resolves :: "product list \<Rightarrow> entry \<Rightarrow> bool" where
  "resolves ps p = (case fst p of None \<Rightarrow> False | Some i \<Rightarrow> findById i ps \<noteq> None)"




definition wf_products :: "db \<Rightarrow> bool" where
  "wf_products d \<longleftrightarrow>
     distinct (map product_id (Products d)) \<and> (\<forall>p \<in> set (Products d). product_id p < nextId d)"



section \<open>Properties\<close>

subsection \<open>Values, promises and the model layer\<close>

lemma strict_eq_imp_eq: "strict_eq a b \<Longrightarrow> a = b"
  by (cases a) auto

lemma sample_lib_simps [simp]:
  "emailQuery sample_lib (JStr s) = Returns (\<lambda>e. e = Some s)"
  "castString sample_lib (JStr s) = Returns (Some s)"
  "castString sample_lib JUndefined = Returns None"
  "castNumber sample_lib (JNum n) = Returns (Some n)"
  "castNumber sample_lib JUndefined = Returns None"
  "castObjectId sample_lib JUndefined = Returns None"
  "castObjectId sample_lib (JStr s) =
     (case read_id s of None \<Rightarrow> Throws | Some i \<Rightarrow> Returns (Some i))"
  "looseEq sample_lib (JStr s) x = (lower_case_id s \<and> x \<noteq> None \<and> read_id s = x)"
  "looseEq sample_lib JUndefined x = (x = None)"
  "bcrypt_hash sample_lib s = ''$2a$10$'' @ s"
  "bcrypt_compare sample_lib s h = (h = ''$2a$10$'' @ s)"
  by (simp_all add: sample_lib_def)

lemma promise_all_Throws: "Throws \<in> set ps \<Longrightarrow> promise_all ps = Throws"
  by (induction ps rule: promise_all.induct) (auto split: outcome.splits)

lemma snapshot_Throws: "\<not> resolves ps p \<Longrightarrow> snapshot ps p = Throws"
  by (auto simp: resolves_def snapshot_def split: option.splits)

lemma lookups_Throw:
  "p \<in> set es \<Longrightarrow> \<not> resolves ps p \<Longrightarrow> promise_all (map (snapshot ps) es) = Throws"
  by (rule promise_all_Throws) (force simp: snapshot_Throws)

lemma findByIdAndDelete_absent: "findById i ps = None \<Longrightarrow> findByIdAndDelete i ps = ps"
  by (induction ps) (auto simp: findById_def split: if_splits)


subsection \<open>Finding and saving users\<close>


lemma find_map_replace:
  assumes "find (\<lambda>u. P (email u)) us = Some u" and "email u' = email u"
  shows "find (\<lambda>u. P (email u)) (map (\<lambda>v. if user_id v = user_id u then u' else v) us) = Some u'"
  using assms
proof (induction us)
  case Nil
  then show ?case by simp
next
  case (Cons a us)
  then show ?case by (auto split: if_splits)
qed

lemma findOne_save_User:
  "findOne l q (Users d) = Returns (Some u) \<Longrightarrow> email u' = email u \<Longrightarrow> user_id u' = user_id u \<Longrightarrow>
     findOne l q (Users (save_User u' d)) = Returns (Some u')"
  using find_map_replace [of _ "Users d" u u']
  by (auto simp: findOne_def save_User_def split: outcome.splits)







lemma Users_save_User [simp]:
  "Users (save_User u d) = map (\<lambda>v. if user_id v = user_id u then u else v) (Users d)"
  "nextId (save_User u d) = nextId d"
  by (simp_all add: save_User_def)





subsection \<open>The first-login flag along a run\<close>









subsection \<open>What a successful signup and login do\<close>



subsection \<open>Stored products along a run\<close>

lemma set_findByIdAndDelete: "set (findByIdAndDelete i ps) \<subseteq> set ps"
  by (induction ps) auto

lemma distinct_findByIdAndDelete:
  "distinct (map product_id ps) \<Longrightarrow> distinct (map product_id (findByIdAndDelete i ps))"
proof (induction ps)
  case Nil
  then show ?case by simp
next
  case (Cons p ps)
  from set_findByIdAndDelete [of i ps]
  have "product_id ` set (findByIdAndDelete i ps) \<subseteq> product_id ` set ps" by blast
  with Cons show ?case by auto
qed

lemma findById_after_delete:
  "distinct (map product_id ps) \<Longrightarrow> findById i (findByIdAndDelete i ps) = None"
proof (induction ps)
  case Nil
  then show ?case by (simp add: findById_def)
next
  case (Cons p ps)
  show ?case
  proof (cases "product_id p = i")
    case True
    with Cons.prems have "i \<notin> product_id ` set ps" by auto
    then have "find (\<lambda>q. product_id q = i) ps = None"
      by (auto simp: find_None_iff)
    with True show ?thesis by (simp add: findById_def)
  next
    case False
    with Cons show ?thesis by (simp add: findById_def)
  qed
qed

lemma handle_Products:
  assumes "handle l r d = (resp, d')"
  shows "(Products d' = Products d \<and> nextId d \<le> nextId d') \<or>
     (\<exists>p. Products d' = Products d @ [p] \<and> product_id p = nextId d \<and> nextId d' = Suc (nextId d)) \<or>
     (\<exists>i. Products d' = findByIdAndDelete i (Products d) \<and> nextId d' = nextId d)"
proof (cases r)
  case (Signup nm em pw c rl)
  with assms show ?thesis
    by (auto simp: signup_def insert_User_def split: outcome.splits if_splits option.splits)
next
  case (Login em pw rl)
  with assms show ?thesis
    by (auto simp: login_def Let_def save_User_def split: outcome.splits if_splits option.splits)
next
  case (AddToWishlist em pid)
  with assms show ?thesis
    by (auto simp: addToWishlist_def save_User_def split: outcome.splits if_splits option.splits)
next
  case (CreateProduct nm pr cat imageUrl upload)
  with assms show ?thesis
    by (auto simp: createProduct_def new_Product_def split: outcome.splits if_splits option.splits)
next
  case (DeleteProduct pid)
  with assms show ?thesis
    by (auto simp: deleteProduct_def split: option.splits)
next
  case (CreateOrder now em entries amt)
  with assms show ?thesis
    by (auto simp: createOrder_def split: outcome.splits if_splits option.splits)
next
  case (UpdateOrderStatus oid st)
  with assms show ?thesis
    by (auto simp: updateOrderStatus_def Let_def split: outcome.splits if_splits option.splits)
qed

lemma handle_wf_products:
  assumes "wf_products d"
  shows "wf_products (snd (handle l r d))"
proof -
  obtain resp d' where h: "handle l r d = (resp, d')" by (cases "handle l r d")
  from handle_Products [OF h] have "wf_products d'"
  proof (elim disjE exE conjE)
    assume "Products d' = Products d" "nextId d \<le> nextId d'"
    with assms show ?thesis by (fastforce simp: wf_products_def)
  next
    fix p assume "Products d' = Products d @ [p]" "product_id p = nextId d" "nextId d' = Suc (nextId d)"
    with assms show ?thesis by (fastforce simp: wf_products_def)
  next
    fix i assume p: "Products d' = findByIdAndDelete i (Products d)" and n: "nextId d' = nextId d"
    from assms have "distinct (map product_id (Products d'))"
      unfolding p by (simp add: wf_products_def distinct_findByIdAndDelete)
    moreover from assms set_findByIdAndDelete [of i "Products d"]
    have "\<forall>q \<in> set (Products d'). product_id q < nextId d'"
      unfolding p n by (auto simp: wf_products_def)
    ultimately show ?thesis by (simp add: wf_products_def)
  qed
  with h show ?thesis by simp
qed

lemma run_wf_products: "wf_products d \<Longrightarrow> wf_products (run l rs d)"
  by (induction rs arbitrary: d) (auto simp: handle_wf_products)

lemma wf_products_reachable: "wf_products (run l rs empty_db)"
  by (rule run_wf_products) (simp add: wf_products_def empty_db_def)

subsection \<open>Orders\<close>

text \<open>
  Claim C1, as the code has it. When the user of an order request exists and some entry of
  the request does not resolve to a stored product, the lookup of that entry throws inside
  \<^verbatim>\<open>Promise.all\<close>; the handler's \<^verbatim>\<open>catch\<close> answers with status 500 and the message
  \<^verbatim>\<open>Failed to create order\<close>, and the database is left as it was. The status is not 404.
\<close>

theorem createOrder_missing_product:
  "findOne l em (Users d) = Returns (Some u) \<Longrightarrow> p \<in> set es \<Longrightarrow> \<not> resolves (Products d) p \<Longrightarrow>
     createOrder l now em (Some es) amt d = ((500, Failure ''Failed to create order''), d)"
  by (simp add: createOrder_def lookups_Throw)

theorem createOrder_missing_product_witness:
  "findOne sample_lib (JStr ''ann@shop.test'') (Users shop) = Returns (Some ann) \<and>
   ((Some 7, JNum 1) :: entry) \<in> set [(Some 1, JNum 2), (Some 7, JNum 1)] \<and>
   \<not> resolves (Products shop) (Some 7, JNum 1) \<and>
   createOrder sample_lib 1000 (JStr ''ann@shop.test'') (Some [(Some 1, JNum 2), (Some 7, JNum 1)])
     (JNum 998) shop = ((500, Failure ''Failed to create order''), shop)"
proof -
  have u: "findOne sample_lib (JStr ''ann@shop.test'') (Users shop) = Returns (Some ann)"
    by (simp add: findOne_def shop_def ann_def)
  have m: "((Some 7, JNum 1) :: entry) \<in> set [(Some 1, JNum 2), (Some 7, JNum 1)]"
    by simp
  have r: "\<not> resolves (Products shop) (Some 7, JNum 1)"
    by (simp add: resolves_def findById_def shop_def tee_def)
  from createOrder_missing_product [OF u m r] u m r show ?thesis
    by simp
qed

text \<open>
  The request of the user Ann for the stored product 1 and the product 7, which does not
  exist, is answered with status 500, not 404.
\<close>

theorem createOrder_missing_product_counterexample:
  "findOne sample_lib (JStr ''ann@shop.test'') (Users shop) = Returns (Some ann) \<and>
   findById 7 (Products shop) = None \<and>
   fst (fst (createOrder sample_lib 1000 (JStr ''ann@shop.test'')
               (Some [(Some 1, JNum 2), (Some 7, JNum 1)]) (JNum 998) shop)) = 500 \<and>
   fst (fst (createOrder sample_lib 1000 (JStr ''ann@shop.test'')
               (Some [(Some 1, JNum 2), (Some 7, JNum 1)]) (JNum 998) shop)) \<noteq> 404"
  by (simp add: createOrder_def findOne_def findById_def snapshot_def shop_def ann_def tee_def)

text \<open>
  Claim C2. An order request with an entry that does not resolve to a stored product
  leaves the database, and so the Orders collection, as it was: no order is persisted,
  whether the user exists or not and whatever the other entries are.
\<close>

theorem createOrder_no_partial_order:
  "p \<in> set es \<Longrightarrow> \<not> resolves (Products d) p \<Longrightarrow>
     snd (createOrder l now em (Some es) amt d) = d"
  by (simp add: createOrder_def lookups_Throw split: outcome.splits option.splits)

theorem createOrder_no_partial_order_witness:
  "((Some 9, JNum 3) :: entry) \<in> set [(Some 1, JNum 1), (Some 9, JNum 3)] \<and>
   \<not> resolves (Products shop) (Some 9, JNum 3) \<and>
   snd (createOrder sample_lib 2000 (JStr ''ann@shop.test'')
          (Some [(Some 1, JNum 1), (Some 9, JNum 3)]) (JNum 30) shop) = shop \<and>
   Orders (snd (createOrder sample_lib 2000 (JStr ''ann@shop.test'')
          (Some [(Some 1, JNum 1), (Some 9, JNum 3)]) (JNum 30) shop)) = []"
proof -
  have m: "((Some 9, JNum 3) :: entry) \<in> set [(Some 1, JNum 1), (Some 9, JNum 3)]" by simp
  have r: "\<not> resolves (Products shop) (Some 9, JNum 3)"
    by (simp add: resolves_def findById_def shop_def tee_def)
  from createOrder_no_partial_order [OF m r, of sample_lib 2000 "JStr ''ann@shop.test''" "JNum 30"] m r
  show ?thesis by (simp add: shop_def)
qed

subsection \<open>Signup and login\<close>

text \<open>
  Claim C3. A signup whose password differs from its confirmation is answered with status
  400, and the database (so the Users collection) is left as it was, whatever the email
  is and whether or not it is already registered.
\<close>

theorem signup_password_mismatch:
  "pw \<noteq> confirm \<Longrightarrow>
     signup l nm em pw confirm rl d = ((400, Failure ''Passwords do not match''), d)"
  using strict_eq_imp_eq [of pw confirm] by (auto simp: signup_def)

theorem signup_password_mismatch_witness:
  "JStr ''secret'' \<noteq> JStr ''secreT'' \<and>
   findOne sample_lib (JStr ''ann@shop.test'') (Users shop) = Returns (Some ann) \<and>
   signup sample_lib (JStr ''Ann'') (JStr ''ann@shop.test'') (JStr ''secret'') (JStr ''secreT'')
     JUndefined shop = ((400, Failure ''Passwords do not match''), shop)"
proof -
  have n: "JStr ''secret'' \<noteq> JStr ''secreT''" by simp
  have f: "findOne sample_lib (JStr ''ann@shop.test'') (Users shop) = Returns (Some ann)"
    by (simp add: findOne_def shop_def ann_def)
  from signup_password_mismatch [OF n] n f show ?thesis by simp
qed

text \<open>
  Claim C4. When the login's email finds a user, the password matches the stored hash and
  the requested role is not the stored one, the answer has status 403, its message ends
  with the stored role, and the database (so \<^verbatim>\<open>isFirstLogin\<close>) is left as it was.
\<close>

theorem login_role_mismatch:
  "findOne l em (Users d) = Returns (Some u) \<Longrightarrow> bcrypt_compare l pw (password u) \<Longrightarrow>
   rl \<noteq> stored (role u) \<Longrightarrow>
     login l em (JStr pw) rl d =
       ((403, Failure (''Incorrect role. Registered as '' @ template (role u))), d)"
  using strict_eq_imp_eq [of "stored (role u)" rl]
  by (auto simp: login_def compare_password_def)

theorem login_role_mismatch_witness:
  "findOne sample_lib (JStr ''ann@shop.test'') (Users shop) = Returns (Some ann) \<and>
   bcrypt_compare sample_lib ''secret'' (password ann) \<and>
   JStr ''user'' \<noteq> stored (role ann) \<and>
   login sample_lib (JStr ''ann@shop.test'') (JStr ''secret'') (JStr ''user'') shop =
     ((403, Failure ''Incorrect role. Registered as admin''), shop)"
proof -
  have f: "findOne sample_lib (JStr ''ann@shop.test'') (Users shop) = Returns (Some ann)"
    by (simp add: findOne_def shop_def ann_def)
  have c: "bcrypt_compare sample_lib ''secret'' (password ann)"
    by (simp add: ann_def)
  have n: "JStr ''user'' \<noteq> stored (role ann)"
    by (simp add: stored_def ann_def)
  from login_role_mismatch [OF f c n] f c n show ?thesis
    by (simp add: template_def ann_def)
qed



subsection \<open>Wishlist\<close>

text \<open>
  When the value of \<^verbatim>\<open>productId\<close> is one that \<^verbatim>\<open>includes\<close> finds again once its cast
  is stored, a second addition right after the first gives the same response and the same
  database as the first.
\<close>

lemma addToWishlist_again:
  assumes "\<And>x. castObjectId l pid = Returns x \<Longrightarrow> looseEq l pid x"
  shows "addToWishlist l em pid (snd (addToWishlist l em pid d)) = addToWishlist l em pid d"
proof (cases "findOne l em (Users d)")
  case Throws
  then show ?thesis by (simp add: addToWishlist_def)
next
  case (Returns found)
  show ?thesis
  proof (cases found)
    case None
    with Returns show ?thesis by (simp add: addToWishlist_def)
  next
    case (Some u)
    with Returns have f: "findOne l em (Users d) = Returns (Some u)" by simp
    show ?thesis
    proof (cases "array_includes l (wishlist u) pid")
      case True
      with f show ?thesis by (simp add: addToWishlist_def)
    next
      case False
      show ?thesis
      proof (cases "castObjectId l pid")
        case Throws
        with f False show ?thesis by (simp add: addToWishlist_def)
      next
        case (Returns x)
        let ?u' = "u\<lparr>wishlist := wishlist u @ [x]\<rparr>"
        from f False Returns
        have first: "addToWishlist l em pid d = ((200, Success), save_User ?u' d)"
          by (simp add: addToWishlist_def)
        have f': "findOne l em (Users (save_User ?u' d)) = Returns (Some ?u')"
          using findOne_save_User [OF f, of ?u'] by simp
        from assms [OF Returns] have "array_includes l (wishlist ?u') pid"
          by (simp add: array_includes_def)
        with f' have "addToWishlist l em pid (save_User ?u' d) = ((200, Success), save_User ?u' d)"
          by (simp add: addToWishlist_def del: Users_save_User)
        with first show ?thesis by simp
      qed
    qed
  qed
qed

text \<open>
  Claim C6 says that adding the same product a second time leaves the wishlist as the
  first addition left it, and that no product occurs twice in the wishlist of a reachable
  state. The handler does not achieve this for every value of \<^verbatim>\<open>productId\<close>: it
  searches the wishlist for the value as received and stores the cast value, so an
  identifier written otherwise than the store writes it is not found again. Bob, who has
  just signed up, adds the product 10 twice, written with an upper-case digit: the first
  request stores it, the second stores it again, and his wishlist holds it twice.
\<close>

theorem addToWishlist_second_spelling:
  "run sample_lib
     [Signup (JStr ''Bob'') (JStr ''bob@shop.test'') (JStr ''pw'') (JStr ''pw'') JUndefined]
     empty_db = joined \<and>
   addToWishlist sample_lib (JStr ''bob@shop.test'') (JStr ''00000000000000000000000A'') joined =
     ((200, Success), joined\<lparr>Users := [bob\<lparr>wishlist := [Some 10]\<rparr>]\<rparr>) \<and>
   addToWishlist sample_lib (JStr ''bob@shop.test'') (JStr ''00000000000000000000000A'')
     (joined\<lparr>Users := [bob\<lparr>wishlist := [Some 10]\<rparr>]\<rparr>) =
     ((200, Success), joined\<lparr>Users := [bob\<lparr>wishlist := [Some 10, Some 10]\<rparr>]\<rparr>) \<and>
   run sample_lib
     [Signup (JStr ''Bob'') (JStr ''bob@shop.test'') (JStr ''pw'') (JStr ''pw'') JUndefined,
      AddToWishlist (JStr ''bob@shop.test'') (JStr ''00000000000000000000000A''),
      AddToWishlist (JStr ''bob@shop.test'') (JStr ''00000000000000000000000A'')]
     empty_db = joined\<lparr>Users := [bob\<lparr>wishlist := [Some 10, Some 10]\<rparr>]\<rparr> \<and>
   addToWishlist sample_lib (JStr ''bob@shop.test'') (JStr ''00000000000000000000000a'')
     (joined\<lparr>Users := [bob\<lparr>wishlist := [Some 10]\<rparr>]\<rparr>) =
     ((200, Success), joined\<lparr>Users := [bob\<lparr>wishlist := [Some 10]\<rparr>]\<rparr>)"
proof -
  have c: "read_id ''00000000000000000000000A'' = Some 10"
    by (simp add: read_id_def digit_of_def)
  have n: "\<not> lower_case_id ''00000000000000000000000A''"
    by (simp add: lower_case_id_def)
  have e: "read_id ''00000000000000000000000a'' = Some 10"
    "lower_case_id ''00000000000000000000000a''"
    by (simp_all add: lower_case_id_def read_id_def digit_of_def)
  have s: "signup sample_lib (JStr ''Bob'') (JStr ''bob@shop.test'') (JStr ''pw'') (JStr ''pw'')
      JUndefined empty_db = ((200, SuccessRole (Some ''user'')), joined)"
    by (simp add: signup_def findOne_def hash_password_def new_User_def insert_User_def
        enum_ok_def empty_db_def joined_def bob_def)
  have a1: "addToWishlist sample_lib (JStr ''bob@shop.test'') (JStr ''00000000000000000000000A'')
      joined = ((200, Success), joined\<lparr>Users := [bob\<lparr>wishlist := [Some 10]\<rparr>]\<rparr>)"
    by (simp add: addToWishlist_def array_includes_def findOne_def save_User_def c joined_def bob_def)
  have a2: "addToWishlist sample_lib (JStr ''bob@shop.test'') (JStr ''00000000000000000000000A'')
      (joined\<lparr>Users := [bob\<lparr>wishlist := [Some 10]\<rparr>]\<rparr>) =
      ((200, Success), joined\<lparr>Users := [bob\<lparr>wishlist := [Some 10, Some 10]\<rparr>]\<rparr>)"
    by (simp add: addToWishlist_def array_includes_def findOne_def save_User_def c n joined_def bob_def)
  have a3: "addToWishlist sample_lib (JStr ''bob@shop.test'') (JStr ''00000000000000000000000a'')
      (joined\<lparr>Users := [bob\<lparr>wishlist := [Some 10]\<rparr>]\<rparr>) =
      ((200, Success), joined\<lparr>Users := [bob\<lparr>wishlist := [Some 10]\<rparr>]\<rparr>)"
    by (simp add: addToWishlist_def array_includes_def findOne_def e joined_def bob_def)
  from s a1 a2 a3 show ?thesis by simp
qed

subsection \<open>Products\<close>

text \<open>
  Claim C8. Deleting by an identifier under which no product is stored is answered with
  success, and the database (so the Products collection) is left as it was. In every
  state that the server reaches from the empty database, deleting by the same identifier
  a second time gives the same response and the same database as the first time.
\<close>

theorem deleteProduct_missing:
  "(findById i (Products d) = None \<longrightarrow> deleteProduct (Some i) d = ((200, Success), d)) \<and>
   deleteProduct (Some i) (snd (deleteProduct (Some i) (run l rs empty_db))) =
     deleteProduct (Some i) (run l rs empty_db)"
proof (intro conjI impI)
  assume "findById i (Products d) = None"
  then show "deleteProduct (Some i) d = ((200, Success), d)"
    by (simp add: deleteProduct_def findByIdAndDelete_absent)
next
  let ?d = "run l rs empty_db"
  from wf_products_reachable [of l rs]
  have "findById i (findByIdAndDelete i (Products ?d)) = None"
    by (simp add: wf_products_def findById_after_delete)
  then have "findByIdAndDelete i (findByIdAndDelete i (Products ?d)) = findByIdAndDelete i (Products ?d)"
    by (rule findByIdAndDelete_absent)
  then show "deleteProduct (Some i) (snd (deleteProduct (Some i) ?d)) = deleteProduct (Some i) ?d"
    by (simp add: deleteProduct_def)
qed

theorem deleteProduct_missing_witness:
  "findById 5 (Products shop) = None \<and>
   deleteProduct (Some 5) shop = ((200, Success), shop) \<and>
   run sample_lib
     [CreateProduct (JStr ''Tee'') (JNum 499) (JStr ''men'') (JStr ''http://x/y.png'') None]
     empty_db =
     \<lparr>Users = [], Products = [tee\<lparr>product_id := 0\<rparr>], Orders = [], nextId = 1\<rparr> \<and>
   deleteProduct (Some 0) (snd (deleteProduct (Some 0)
     \<lparr>Users = [], Products = [tee\<lparr>product_id := 0\<rparr>], Orders = [], nextId = 1\<rparr>)) =
     ((200, Success), \<lparr>Users = [], Products = [], Orders = [], nextId = 1\<rparr>)"
proof -
  have r: "run sample_lib
     [CreateProduct (JStr ''Tee'') (JNum 499) (JStr ''men'') (JStr ''http://x/y.png'') None]
     empty_db =
     \<lparr>Users = [], Products = [tee\<lparr>product_id := 0\<rparr>], Orders = [], nextId = 1\<rparr>"
    by (simp add: createProduct_def new_Product_def empty_db_def tee_def)
  have f: "findById 5 (Products shop) = None"
    by (simp add: findById_def shop_def tee_def)
  from deleteProduct_missing [of 5 shop sample_lib "[]"]
    deleteProduct_missing
      [of 0 shop sample_lib
        "[CreateProduct (JStr ''Tee'') (JNum 499) (JStr ''men'') (JStr ''http://x/y.png'') None]"]
    f r
  show ?thesis by (simp add: deleteProduct_def)
qed

text \<open>
  Claim C9. The required-field check of product creation tests truthiness: a request
  whose price is the number 0, or whose name is the empty string, is answered with status
  400 and \<^verbatim>\<open>All fields required\<close>, whatever its other fields and its image are, and the
  database is left as it was.
\<close>

theorem createProduct_falsy_field:
  "pr = JNum 0 \<or> nm = JStr '''' \<Longrightarrow>
     createProduct l nm pr cat imageUrl file d = ((400, Failure ''All fields required''), d)"
  by (auto simp: createProduct_def)

theorem createProduct_falsy_field_witness:
  "createProduct sample_lib (JStr ''Tee'') (JNum 0) (JStr ''men'') (JStr ''http://x/y.png'') None shop =
     ((400, Failure ''All fields required''), shop) \<and>
   createProduct sample_lib (JStr '''') (JNum 499) (JStr ''men'') JUndefined (Some ''1-tee.png'') shop =
     ((400, Failure ''All fields required''), shop)"
  using createProduct_falsy_field
      [of "JNum 0" "JStr ''Tee''" sample_lib "JStr ''men''" "JStr ''http://x/y.png''" None shop]
    createProduct_falsy_field
      [of "JNum 499" "JStr ''''" sample_lib "JStr ''men''" JUndefined "Some ''1-tee.png''" shop]
  by simp

subsection \<open>The default role\<close>

text \<open>
  Claim C10, as the code has it. A signup that leaves \<^verbatim>\<open>role\<close> out, whose password is a
  string equal to its confirmation, whose email finds no user, and whose name and email
  the schema casts to values of which the email is not stored yet, creates exactly one
  user, stored with the role \<^verbatim>\<open>user\<close> of the schema default, and answers with that
  role.
\<close>

theorem signup_default_role:
  "findOne l em (Users d) = Returns None \<Longrightarrow> castString l nm = Returns n \<Longrightarrow>
   castString l em = Returns e \<Longrightarrow> e \<notin> set (map email (Users d)) \<Longrightarrow>
     signup l nm em (JStr p) (JStr p) JUndefined d =
       ((200, SuccessRole (Some ''user'')),
        d\<lparr>Users := Users d @
             [\<lparr>user_id = nextId d, user_name = n, email = e, password = bcrypt_hash l p,
               role = Some ''user'', isFirstLogin = True, wishlist = []\<rparr>],
          nextId := Suc (nextId d)\<rparr>)"
  by (simp add: signup_def hash_password_def new_User_def insert_User_def enum_ok_def)

theorem signup_default_role_witness:
  "findOne sample_lib (JStr ''bob@shop.test'') (Users shop) = Returns None \<and>
   castString sample_lib (JStr ''Bob'') = Returns (Some ''Bob'') \<and>
   castString sample_lib (JStr ''bob@shop.test'') = Returns (Some ''bob@shop.test'') \<and>
   Some ''bob@shop.test'' \<notin> set (map email (Users shop)) \<and>
   signup sample_lib (JStr ''Bob'') (JStr ''bob@shop.test'') (JStr ''pw'') (JStr ''pw'') JUndefined
     shop =
     ((200, SuccessRole (Some ''user'')),
      shop\<lparr>Users := [ann, bob\<lparr>user_id := 2\<rparr>], nextId := 3\<rparr>)"
proof -
  have f: "findOne sample_lib (JStr ''bob@shop.test'') (Users shop) = Returns None"
    by (simp add: findOne_def shop_def ann_def)
  have n: "castString sample_lib (JStr ''Bob'') = Returns (Some ''Bob'')" by simp
  have e: "castString sample_lib (JStr ''bob@shop.test'') = Returns (Some ''bob@shop.test'')"
    by simp
  have u: "Some ''bob@shop.test'' \<notin> set (map email (Users shop))"
    by (simp add: shop_def ann_def)
  from signup_default_role [OF f n e u, of "''pw''"] f n e u show ?thesis
    by (simp add: shop_def bob_def)
qed

text \<open>
  A signup without \<^verbatim>\<open>password\<close>, \<^verbatim>\<open>confirm\<close> and \<^verbatim>\<open>role\<close> passes the comparison (both
  are undefined) and finds no user under its email, yet creates no user: hashing the
  undefined password throws, and the answer is status 500.
\<close>

theorem signup_default_role_counterexample:
  "strict_eq JUndefined JUndefined \<and>
   findOne sample_lib (JStr ''bob@shop.test'') (Users shop) = Returns None \<and>
   signup sample_lib (JStr ''Bob'') (JStr ''bob@shop.test'') JUndefined JUndefined JUndefined
     shop = ((500, Failure ''Server error''), shop)"
  by (simp add: signup_def findOne_def hash_password_def shop_def ann_def)

end
